theory Spec2Isabelle
  imports Complex_Main "HOL-Library.Multiset"
begin

section \<open>Friend recommendations: the computation of \<open>logic/recomendation_model.py\<close>\<close>

text \<open>
  The program reads a friendship file, builds the friends-of-friends table with Spark
  dataframe operators, ranks the candidates of every user and, optionally, joins
  demographic records and computes a heuristic probability. A dataframe is modelled as
  the list of its rows, a row as a record with the column names of the source, a nullable
  column as an \<open>option\<close>, and an exception raised while the file is parsed as the left
  summand of a result.

  Identifiers are Python integers in the parser and 64-bit integers in the dataframes. The
  model uses \<open>int\<close> for both and writes the 64-bit range out where it matters: the
  predicate \<open>int64\<close> bounds a value, \<open>wrap64\<close> is the wrap-around of a 64-bit sum.
  Only ASCII text is modelled.
\<close>

subsection \<open>Errors and text helpers\<close>

datatype error = ValueError | IndexError | Py4JError

text \<open>The signed 64-bit range of a JVM \<open>long\<close> and of Spark's \<open>bigint\<close>.\<close>

definition int64 :: "int \<Rightarrow> bool" where
  "int64 i = (- (2 ^ 63) \<le> i \<and> i < 2 ^ 63)"

definition wrap64 :: "int \<Rightarrow> int" where
  "wrap64 i = (i + 2 ^ 63) mod 2 ^ 64 - 2 ^ 63"

text \<open>\<open>str.split(" ", 1)\<close>: at most one split, at the first space.\<close>

definition split_space1 :: "string \<Rightarrow> string list" where
  "split_space1 s =
     (case dropWhile (\<lambda>c. c \<noteq> CHR '' '') s of
        [] \<Rightarrow> [s]
      | _ # rest \<Rightarrow> [takeWhile (\<lambda>c. c \<noteq> CHR '' '') s, rest])"

text \<open>\<open>str.split(",")\<close>: every comma separates, the result is never empty.\<close>

fun split_comma :: "string \<Rightarrow> string list" where
  "split_comma [] = [[]]"
| "split_comma (c # cs) =
     (if c = CHR '','' then [] # split_comma cs
      else (case split_comma cs of [] \<Rightarrow> [[c]] | w # ws \<Rightarrow> (c # w) # ws))"

text \<open>\<open>str.split(", ")\<close>: the separator is a comma followed by a space.\<close>

fun split_comma_space :: "string \<Rightarrow> string list" where
  "split_comma_space [] = [[]]"
| "split_comma_space [c] = [[c]]"
| "split_comma_space (c # d # cs) =
     (if c = CHR '','' \<and> d = CHR '' '' then [] # split_comma_space cs
      else (case split_comma_space (d # cs) of [] \<Rightarrow> [[c]] | w # ws \<Rightarrow> (c # w) # ws))"

text \<open>
  \<open>str.strip()\<close> removes the characters for which \<open>str.isspace\<close> holds; among the
  ASCII characters these are the six of C's \<open>isspace\<close> and the four separators
  \<open>0x1C\<close> to \<open>0x1F\<close>.
\<close>

definition is_py_space :: "char \<Rightarrow> bool" where
  "is_py_space c =
     (c \<in> set [CHR 0x09, CHR 0x0A, CHR 0x0B, CHR 0x0C, CHR 0x0D,
               CHR 0x1C, CHR 0x1D, CHR 0x1E, CHR 0x1F, CHR '' ''])"

definition py_strip :: "string \<Rightarrow> string" where
  "py_strip s = dropWhile is_py_space (rev (dropWhile is_py_space (rev s)))"

text \<open>
  Python's \<open>int(s)\<close> on ASCII text: surrounding whitespace is ignored (here only the
  six characters of C's \<open>isspace\<close>: the separators \<open>0x1C\<close> to \<open>0x1F\<close> are not
  skipped), one sign is allowed, then decimal digits, where single underscores may stand
  between digits. Anything else raises \<open>ValueError\<close>, and so does a numeral of more
  than 4300 digits (the default limit of CPython 3.11).
\<close>

definition is_int_space :: "char \<Rightarrow> bool" where
  "is_int_space c =
     (c \<in> set [CHR 0x09, CHR 0x0A, CHR 0x0B, CHR 0x0C, CHR 0x0D, CHR '' ''])"

definition int_strip :: "string \<Rightarrow> string" where
  "int_strip s = dropWhile is_int_space (rev (dropWhile is_int_space (rev s)))"

definition digit_val :: "char \<Rightarrow> nat option" where
  "digit_val c =
     (let n = (of_char c :: nat) in if 48 \<le> n \<and> n \<le> 57 then Some (n - 48) else None)"

fun py_digits :: "nat \<Rightarrow> string \<Rightarrow> nat option" where
  "py_digits acc [] = Some acc"
| "py_digits acc [c] =
     (case digit_val c of None \<Rightarrow> None | Some v \<Rightarrow> Some (10 * acc + v))"
| "py_digits acc (c # d # cs) =
     (if c = CHR ''_'' then
        (case digit_val d of None \<Rightarrow> None | Some v \<Rightarrow> py_digits (10 * acc + v) cs)
      else
        (case digit_val c of None \<Rightarrow> None | Some v \<Rightarrow> py_digits (10 * acc + v) (d # cs)))"

definition py_unsigned :: "string \<Rightarrow> nat option" where
  "py_unsigned s =
     (if 4300 < length (filter (\<lambda>c. c \<noteq> CHR ''_'') s) then None
      else
        (case s of
           [] \<Rightarrow> None
         | c # cs \<Rightarrow> (case digit_val c of None \<Rightarrow> None | Some v \<Rightarrow> py_digits v cs)))"

definition py_int :: "string \<Rightarrow> error + int" where
  "py_int s =
     (case int_strip s of
        [] \<Rightarrow> Inl ValueError
      | c # cs \<Rightarrow>
          (if c = CHR ''-'' then
             (case py_unsigned cs of None \<Rightarrow> Inl ValueError | Some n \<Rightarrow> Inr (- int n))
           else if c = CHR ''+'' then
             (case py_unsigned cs of None \<Rightarrow> Inl ValueError | Some n \<Rightarrow> Inr (int n))
           else
             (case py_unsigned (c # cs) of None \<Rightarrow> Inl ValueError | Some n \<Rightarrow> Inr (int n))))"

text \<open>
  Mapping a function that may raise over a list stops at an exception; the model reports
  the one of the first element that raises (Spark may meet another one first when it
  works on several partitions, and wraps it in its own exception).
\<close>

fun map_result :: "('a \<Rightarrow> error + 'b) \<Rightarrow> 'a list \<Rightarrow> error + 'b list" where
  "map_result f [] = Inr []"
| "map_result f (x # xs) =
     (case f x of
        Inl e \<Rightarrow> Inl e
      | Inr y \<Rightarrow> (case map_result f xs of Inl e \<Rightarrow> Inl e | Inr ys \<Rightarrow> Inr (y # ys)))"

subsection \<open>The base file\<close>

text \<open>Every dataframe of the program that is read or returned has a \<open>user\<close> column.\<close>

record user_col =
  user :: int

record base_row = user_col +
  friends :: "int list"

text \<open>
  One line of the base file, as the two lambdas of
  \<open>create_dataframe_for_N_recommendation\<close> treat it: \<open>pair[1]\<close> raises
  \<open>IndexError\<close> when the line has no space.
\<close>

definition parse_base_line :: "string \<Rightarrow> error + base_row" where
  "parse_base_line line =
     (case split_space1 line of
        [p0, p1] \<Rightarrow>
          (case py_int p0 of
             Inl e \<Rightarrow> Inl e
           | Inr u \<Rightarrow>
               (case map_result py_int (split_comma p1) of
                  Inl e \<Rightarrow> Inl e
                | Inr fs \<Rightarrow> Inr \<lparr>user = u, friends = fs\<rparr>))
      | [p0] \<Rightarrow> (case py_int p0 of Inl e \<Rightarrow> Inl e | Inr u \<Rightarrow> Inl IndexError)
      | _ \<Rightarrow> Inl IndexError)"

text \<open>
  The argument is the list of lines that \<open>textFile\<close> delivers. The rows are collected
  and handed to \<open>createDataFrame\<close>, which keeps every row it is given and raises
  \<open>ValueError\<close> when it is given none (no schema can be inferred). An identifier
  outside the 64-bit range is stored by Spark as a null; the model has no null
  identifiers, so the properties of the dataframes below are stated for files whose
  identifiers are in range (\<open>ids_in_range\<close>).
\<close>

definition create_dataframe_for_N_recommendation :: "string list \<Rightarrow> error + base_row list" where
  "create_dataframe_for_N_recommendation lines =
     (case map_result parse_base_line lines of
        Inl e \<Rightarrow> Inl e
      | Inr data \<Rightarrow> (if data = [] then Inl ValueError else Inr data))"

definition ids_in_range :: "base_row list \<Rightarrow> bool" where
  "ids_in_range df = list_all (\<lambda>r. int64 (user r) \<and> list_all int64 (friends r)) df"

subsection \<open>Friends of friends\<close>

text \<open>
  The intermediate dataframes of \<open>get_N_recommendation\<close> are lists of tuples; the
  columns are named in the types' comments.
\<close>

type_synonym exploded_row = "int \<times> int list \<times> int"
  \<comment> \<open>user, friends, friend\<close>
type_synonym fof_row = "int \<times> int list \<times> int \<times> int"
  \<comment> \<open>user, friends, friend, fof\<close>
type_synonym grouped_row = "int \<times> int \<times> int"
  \<comment> \<open>user, fof, common\_friends\<close>

record recommendation = user_col +
  fof :: int
  rank :: int

text \<open>\<open>explode\<close>: one row per element of the array, none for an empty array.\<close>

definition friends_exploded :: "base_row list \<Rightarrow> exploded_row list" where
  "friends_exploded df =
     concat (map (\<lambda>r. map (\<lambda>f. (user r, friends r, f)) (friends r)) df)"

text \<open>The self-join on \<open>df1.friend = df2.user\<close>, with the four selected columns.\<close>

definition friends_of_friends :: "exploded_row list \<Rightarrow> fof_row list" where
  "friends_of_friends ex =
     concat (map (\<lambda>(u1, fs1, f1).
               map (\<lambda>(u2, fs2, f2). (u1, fs1, f1, f2))
                   (filter (\<lambda>(u2, fs2, f2). f1 = u2) ex)) ex)"

text \<open>The two filters: \<open>user != fof\<close>, then \<open>~array_contains(friends, fof)\<close>.\<close>

definition recommendations :: "fof_row list \<Rightarrow> fof_row list" where
  "recommendations fofs =
     filter (\<lambda>(u, fs, f, c). c \<notin> set fs) (filter (\<lambda>(u, fs, f, c). u \<noteq> c) fofs)"

text \<open>\<open>groupBy("user", "fof").agg(sum("friend"))\<close>: one row per pair, with the sum of
  the \<open>friend\<close> column over the rows of the pair. The column is a \<open>bigint\<close>, whose
  sum wraps around at 64 bits.\<close>

definition friend_recommendations :: "fof_row list \<Rightarrow> grouped_row list" where
  "friend_recommendations recs =
     map (\<lambda>(u, c).
            (u, c, wrap64 (sum_list (map (\<lambda>(u', fs, f, c'). f)
                                         (filter (\<lambda>(u', fs, f, c'). u' = u \<and> c' = c) recs)))))
         (remdups (map (\<lambda>(u, fs, f, c). (u, c)) recs))"

text \<open>
  The window: within one partition the rows are ordered by \<open>common_friends\<close>
  descending and numbered from 1. Spark fixes neither the order in which the grouped rows
  reach the window nor the order of rows with equal \<open>common_friends\<close>. The parameter
  \<open>shuffle\<close> stands for the order of arrival (it is meant to permute its argument); the
  sort is stable, so rows with equal keys keep their order of arrival.
\<close>

definition row_number_over :: "grouped_row list \<Rightarrow> (grouped_row \<times> int) list" where
  "row_number_over part =
     (let ordered = sort_key (\<lambda>(u, c, k). - k) part
      in zip ordered (map int [1..<Suc (length ordered)]))"

definition top_n_recommendations ::
  "(grouped_row list \<Rightarrow> grouped_row list) \<Rightarrow> grouped_row list \<Rightarrow> int \<Rightarrow> recommendation list" where
  "top_n_recommendations shuffle grouped N =
     (let arrived = shuffle grouped
      in concat (map (\<lambda>p.
                   map (\<lambda>((u, c, k), r). \<lparr>user = u, fof = c, rank = r\<rparr>)
                       (filter (\<lambda>(x, r). r \<le> N)
                               (row_number_over (filter (\<lambda>(u, c, k). u = p) arrived))))
                 (remdups (map fst arrived))))"

text \<open>
  The dataframe operators are lazy and total. The file is read first, and reading can
  raise. The comparison \<open>rank <= N\<close> is then built by passing \<open>N\<close> to the JVM as a
  \<open>long\<close>, which raises when \<open>N\<close> is outside the signed 64-bit range.
\<close>

definition N_recommendation ::
  "(grouped_row list \<Rightarrow> grouped_row list) \<Rightarrow> base_row list \<Rightarrow> int \<Rightarrow> recommendation list" where
  "N_recommendation shuffle df N =
     top_n_recommendations shuffle
       (friend_recommendations (recommendations (friends_of_friends (friends_exploded df)))) N"

definition get_N_recommendation ::
  "(grouped_row list \<Rightarrow> grouped_row list) \<Rightarrow> string list \<Rightarrow> int
     \<Rightarrow> error + recommendation list" where
  "get_N_recommendation shuffle base_file N =
     (case create_dataframe_for_N_recommendation base_file of
        Inl e \<Rightarrow> Inl e
      | Inr df \<Rightarrow>
          (if int64 N then Inr (N_recommendation shuffle df N) else Inl Py4JError))"

subsection \<open>The demographic file\<close>

text \<open>
  The columns of the secondary file: the identifier, gender, age, city and higher
  education (the source names the last four in Russian).
\<close>

record demographic =
  ID :: int
  gender :: int
  age :: int
  city :: int
  education :: int

text \<open>\<open>parts[i]\<close> of a tuple, converted by \<open>int\<close>; a missing position raises
  \<open>IndexError\<close>.\<close>

definition int_at :: "string list \<Rightarrow> nat \<Rightarrow> error + int" where
  "int_at parts i = (if i < length parts then py_int (parts ! i) else Inl IndexError)"

text \<open>
  One line of the secondary file. The first lambda converts the identifier and needs
  \<open>parts[1]\<close>; the second converts the five positions from left to right. The first
  and the last position are stripped by \<open>str.strip\<close> before \<open>int\<close> sees them.
\<close>

definition parse_secondary_line :: "string \<Rightarrow> error + demographic" where
  "parse_secondary_line line =
     (case split_space1 line of
        [p0, p1] \<Rightarrow>
          (case py_int (py_strip p0) of
             Inl e \<Rightarrow> Inl e
           | Inr i0 \<Rightarrow>
               (let fields = split_comma_space p1 in
                case int_at fields 0 of Inl e \<Rightarrow> Inl e | Inr g \<Rightarrow>
                (case int_at fields 1 of Inl e \<Rightarrow> Inl e | Inr a \<Rightarrow>
                (case int_at fields 2 of Inl e \<Rightarrow> Inl e | Inr c \<Rightarrow>
                (case (if 3 < length fields then py_int (py_strip (fields ! 3))
                       else Inl IndexError) of Inl e \<Rightarrow> Inl e | Inr h \<Rightarrow>
                   Inr \<lparr>ID = i0, gender = g, age = a, city = c, education = h\<rparr>)))))
      | [p0] \<Rightarrow> (case py_int (py_strip p0) of Inl e \<Rightarrow> Inl e | Inr i0 \<Rightarrow> Inl IndexError)
      | _ \<Rightarrow> Inl IndexError)"

text \<open>
  The model parses the whole file at once; Spark parses the first line when the dataframe is
  created and the others when the rows are computed, so an exception of a later line
  surfaces later, still before the result file is written.
\<close>

definition create_dataframe_for_probability :: "string list \<Rightarrow> error + demographic list" where
  "create_dataframe_for_probability lines =
     (case map_result parse_secondary_line lines of
        Inl e \<Rightarrow> Inl e
      | Inr data \<Rightarrow> (if data = [] then Inl ValueError else Inr data))"

subsection \<open>Column expressions with SQL's three truth values\<close>

text \<open>
  A comparison with a null operand is null, \<open>&\<close> and \<open>|\<close> are Kleene's connectives, and
  \<open>when\<close> takes a branch only if its condition is true.
\<close>

definition sql_eq :: "int option \<Rightarrow> int option \<Rightarrow> bool option" where
  "sql_eq a b = (case (a, b) of (Some x, Some y) \<Rightarrow> Some (x = y) | _ \<Rightarrow> None)"

definition sql_abs_diff :: "int option \<Rightarrow> int option \<Rightarrow> int option" where
  "sql_abs_diff a b = (case (a, b) of (Some x, Some y) \<Rightarrow> Some \<bar>x - y\<bar> | _ \<Rightarrow> None)"

definition sql_less :: "int option \<Rightarrow> int \<Rightarrow> bool option" where
  "sql_less a n = (case a of Some x \<Rightarrow> Some (x < n) | None \<Rightarrow> None)"

definition sql_ge :: "int option \<Rightarrow> int \<Rightarrow> bool option" where
  "sql_ge a n = (case a of Some x \<Rightarrow> Some (n \<le> x) | None \<Rightarrow> None)"

definition sql_and :: "bool option \<Rightarrow> bool option \<Rightarrow> bool option" where
  "sql_and p q =
     (if p = Some False \<or> q = Some False then Some False
      else if p = Some True \<and> q = Some True then Some True else None)"

definition sql_or :: "bool option \<Rightarrow> bool option \<Rightarrow> bool option" where
  "sql_or p q =
     (if p = Some True \<or> q = Some True then Some True
      else if p = Some False \<and> q = Some False then Some False else None)"

definition holds :: "bool option \<Rightarrow> bool" where
  "holds p = (p = Some True)"

subsection \<open>The probability\<close>

record scored = recommendation +
  user_gender :: "int option"
  user_age :: "int option"
  user_city :: "int option"
  user_education :: "int option"
  potential_friend_gender :: "int option"
  potential_friend_age :: "int option"
  potential_friend_city :: "int option"
  potential_friend_education :: "int option"
  probability :: real

text \<open>
  A left join on the identifier: every matching record gives a row, and a key without a
  match gives one row whose joined columns are null.
\<close>

definition left_join :: "demographic list \<Rightarrow> int \<Rightarrow> demographic option list" where
  "left_join additional_properties k =
     (case filter (\<lambda>d. ID d = k) additional_properties of
        [] \<Rightarrow> [None]
      | d # ds \<Rightarrow> map Some (d # ds))"

text \<open>
  The five \<open>withColumn("probability", ...)\<close> steps, in the order of the source. The
  values are the decimal fractions written in the source, taken as exact numbers (the
  rounding of binary floating point is not modelled).
\<close>

definition probability_of ::
  "int option \<Rightarrow> int option \<Rightarrow> int option \<Rightarrow> int option \<Rightarrow> int option \<Rightarrow> int option
     \<Rightarrow> int option \<Rightarrow> real" where
  "probability_of u_age u_city u_education p_gender p_age p_city p_education =
     (let p0 = (if holds (sql_eq u_age p_gender) then 0.3 else 0.1);
          d = sql_abs_diff u_age p_age;
          p1 = (if holds (sql_less d 5) then p0 + 0.4
                else if holds (sql_less d 10) then p0 + 0.2
                else if holds (sql_ge d 10) then p0 - 0.2
                else p0);
          p2 = (if holds (sql_eq u_city p_city) then p1 + 0.5 else p1);
          p3 = (if holds (sql_and (sql_eq u_education (Some 1)) (sql_eq p_education (Some 1)))
                then p2 + 0.3
                else if holds (sql_or (sql_eq u_education (Some 1)) (sql_eq p_education (Some 1)))
                then p2 + 0.1
                else p2)
      in if p3 > 1 then 1 else if p3 < 0 then 0 else p3)"

definition scored_row :: "recommendation \<Rightarrow> demographic option \<Rightarrow> demographic option \<Rightarrow> scored" where
  "scored_row r du dp =
     \<lparr>user = user r, fof = fof r, rank = rank r,
      user_gender = map_option gender du, user_age = map_option age du,
      user_city = map_option city du, user_education = map_option education du,
      potential_friend_gender = map_option gender dp,
      potential_friend_age = map_option age dp,
      potential_friend_city = map_option city dp,
      potential_friend_education = map_option education dp,
      probability =
        probability_of (map_option age du) (map_option city du) (map_option education du)
          (map_option gender dp) (map_option age dp) (map_option city dp)
          (map_option education dp)\<rparr>"

text \<open>The join on \<open>user\<close>, then the join on \<open>fof\<close>, then the probability column.\<close>

definition probability_rows :: "recommendation list \<Rightarrow> demographic list \<Rightarrow> scored list" where
  "probability_rows top_n additional_properties =
     concat (map (\<lambda>r.
               concat (map (\<lambda>du. map (\<lambda>dp. scored_row r du dp)
                                      (left_join additional_properties (fof r)))
                           (left_join additional_properties (user r))))
             top_n)"

definition get_probability :: "recommendation list \<Rightarrow> string list \<Rightarrow> error + scored list" where
  "get_probability top_n secondary_file =
     (case create_dataframe_for_probability secondary_file of
        Inl e \<Rightarrow> Inl e
      | Inr additional_properties \<Rightarrow> Inr (probability_rows top_n additional_properties))"

subsection \<open>Writing the result file (\<open>calculate_recomendations\<close> in \<open>handlers.py\<close>)\<close>

text \<open>Python's \<open>str\<close> of an integer: decimal digits, with a minus sign when negative.\<close>

fun str_nat :: "nat \<Rightarrow> string" where
  "str_nat n =
     (if n < 10 then [char_of (48 + n)]
      else str_nat (n div 10) @ [char_of (48 + n mod 10)])"

definition str_int :: "int \<Rightarrow> string" where
  "str_int i = (if i < 0 then CHR ''-'' # str_nat (nat (- i)) else str_nat (nat i))"

text \<open>
  The two \<open>f.write\<close> calls. Python's \<open>str\<close> of a float is not modelled: it is the
  parameter \<open>str_float\<close>.
\<close>

definition plain_line :: "recommendation \<Rightarrow> string" where
  "plain_line row = str_int (user row) @ '' '' @ str_int (fof row)"

definition probability_line :: "(real \<Rightarrow> string) \<Rightarrow> scored \<Rightarrow> string" where
  "probability_line str_float row =
     str_int (user row) @ '' '' @ str_int (fof row) @ '', '' @ str_float (probability row)"

definition write_lines :: "string list \<Rightarrow> string" where
  "write_lines ls = concat (map (\<lambda>l. l @ [CHR 0x0A]) ls)"

text \<open>
  The job: the text of the result file, or the exception that ends the job. The secondary
  file is \<open>None\<close> when no path was given; the probability branch is taken when a path
  was given and \<open>use_secondary_file\<close> is set. (The status dictionary is not modelled.)
\<close>

definition calculate_recomendations ::
  "(grouped_row list \<Rightarrow> grouped_row list) \<Rightarrow> (real \<Rightarrow> string) \<Rightarrow> string list \<Rightarrow> bool
     \<Rightarrow> string list option \<Rightarrow> int \<Rightarrow> error + string" where
  "calculate_recomendations shuffle str_float base_file use_secondary_file secondary_file N =
     (case get_N_recommendation shuffle base_file N of
        Inl e \<Rightarrow> Inl e
      | Inr result_recommendations \<Rightarrow>
          (case secondary_file of
             Some sec \<Rightarrow>
               (if use_secondary_file then
                  (case get_probability result_recommendations sec of
                     Inl e \<Rightarrow> Inl e
                   | Inr scored_recommendations \<Rightarrow>
                       Inr (write_lines (map (probability_line str_float) scored_recommendations)))
                else Inr (write_lines (map plain_line result_recommendations)))
           | None \<Rightarrow> Inr (write_lines (map plain_line result_recommendations))))"

section \<open>Properties\<close>

subsection \<open>Evaluation of the parser on concrete files\<close>

lemmas parse_defs =
  create_dataframe_for_N_recommendation_def parse_base_line_def split_space1_def
  py_int_def int_strip_def is_int_space_def py_unsigned_def digit_val_def

lemma triangle_free_file:
  "create_dataframe_for_N_recommendation [''1 2'', ''2 1,3'', ''3 2''] =
     Inr [\<lparr>user = 1, friends = [2]\<rparr>, \<lparr>user = 2, friends = [1, 3]\<rparr>,
          \<lparr>user = 3, friends = [2]\<rparr>]"
  by (simp add: parse_defs)

subsection \<open>A cap below one\<close>

lemma row_number_over_rank_ge1: "(x, r) \<in> set (row_number_over part) \<Longrightarrow> 1 \<le> r"
  by (auto simp: row_number_over_def Let_def dest!: set_zip_rightD)

lemma row_number_over_below1:
  assumes "N < 1"
  shows "filter (\<lambda>(x, r). r \<le> N) (row_number_over part) = []"
proof -
  have "\<forall>xr \<in> set (row_number_over part). \<not> (case xr of (x, r) \<Rightarrow> r \<le> N)"
    using assms row_number_over_rank_ge1 by fastforce
  then show ?thesis by (simp add: filter_empty_conv)
qed

lemma top_n_below1: "N < 1 \<Longrightarrow> top_n_recommendations shuffle grouped N = []"
  by (simp add: top_n_recommendations_def Let_def row_number_over_below1)

text \<open>
  Claim C3, as stated, fails: for \<open>N = 0\<close> the computation does not raise, it returns
  the empty dataframe.
\<close>

theorem n_zero_counterexample:
  "get_N_recommendation id [''1 2'', ''2 1,3'', ''3 2''] 0 = Inr []"
  by code_simp

text \<open>
  Claim C3, amended: the source never checks \<open>N\<close>. For every \<open>N < 1\<close> that fits a
  signed 64-bit integer and every base file, the computation fails exactly when reading
  the file fails, with that exception, and otherwise succeeds with an empty result (no
  rank is below 1, so the filter \<open>rank <= N\<close> keeps nothing).
\<close>

theorem n_below_one_gives_empty_result:
  assumes "N < 1" and "- (2 ^ 63) \<le> N"
  shows "get_N_recommendation shuffle base_file N =
           (case create_dataframe_for_N_recommendation base_file of
              Inl e \<Rightarrow> Inl e
            | Inr df \<Rightarrow> Inr [])"
  using assms
  by (simp add: get_N_recommendation_def N_recommendation_def top_n_below1 int64_def
      split: sum.splits)

theorem n_below_one_witness:
  "(-3::int) < 1 \<and> - (2 ^ 63) \<le> (-3::int) \<and>
   get_N_recommendation rev [''1 2'', ''2 1,3'', ''3 2''] (-3) = Inr []"
  using n_below_one_gives_empty_result [of "-3" rev "[''1 2'', ''2 1,3'', ''3 2'']"]
  by (simp add: triangle_free_file)

subsection \<open>Duplicate users in the base file\<close>

lemma map_result_Inr_iff:
  "map_result f xs = Inr ys \<longleftrightarrow> list_all2 (\<lambda>x y. f x = Inr y) xs ys"
proof (induction xs arbitrary: ys)
  case Nil
  then show ?case by auto
next
  case (Cons x xs)
  show ?case
  proof (cases "f x")
    case (Inl e)
    then show ?thesis by (auto simp: list_all2_Cons1)
  next
    case (Inr y)
    then show ?thesis
      using Cons.IH by (cases "map_result f xs") (auto simp: list_all2_Cons1)
  qed
qed

text \<open>
  Claim C4, as stated, fails: a file whose two lines both start with user 1 is read
  without an exception.
\<close>

theorem duplicate_user_counterexample:
  "create_dataframe_for_N_recommendation [''1 2'', ''1 3''] =
     Inr [\<lparr>user = 1, friends = [2]\<rparr>, \<lparr>user = 1, friends = [3]\<rparr>]"
  by (simp add: parse_defs)

text \<open>
  Claim C4, amended: the parser never compares the users of different lines. Reading
  succeeds exactly when the file has a line and every line, taken alone, is well formed;
  the dataframe then has one row per line, in the order of the lines. A user that heads
  several lines therefore has several rows: no exception, no merge, no overwrite.
\<close>

theorem base_file_parsed_line_by_line:
  "create_dataframe_for_N_recommendation lines = Inr df \<longleftrightarrow>
     lines \<noteq> [] \<and> list_all2 (\<lambda>line row. parse_base_line line = Inr row) lines df"
proof
  assume a: "create_dataframe_for_N_recommendation lines = Inr df"
  then have m: "map_result parse_base_line lines = Inr df" and "df \<noteq> []"
    by (auto simp: create_dataframe_for_N_recommendation_def split: sum.splits if_splits)
  then show "lines \<noteq> [] \<and> list_all2 (\<lambda>line row. parse_base_line line = Inr row) lines df"
    by (auto simp: map_result_Inr_iff)
next
  assume b: "lines \<noteq> [] \<and> list_all2 (\<lambda>line row. parse_base_line line = Inr row) lines df"
  then have m: "map_result parse_base_line lines = Inr df"
    by (simp add: map_result_Inr_iff)
  from b have "df \<noteq> []" by auto
  with m show "create_dataframe_for_N_recommendation lines = Inr df"
    by (simp add: create_dataframe_for_N_recommendation_def)
qed

lemma parse_line_7_8_9: "parse_base_line ''7 8,9'' = Inr \<lparr>user = 7, friends = [8, 9]\<rparr>"
  by (simp add: parse_defs)

lemma parse_line_8_7: "parse_base_line ''8 7'' = Inr \<lparr>user = 8, friends = [7]\<rparr>"
  by (simp add: parse_defs)

lemma parse_line_7_9: "parse_base_line ''7 9'' = Inr \<lparr>user = 7, friends = [9]\<rparr>"
  by (simp add: parse_defs)

theorem base_file_parsed_line_by_line_witness:
  "create_dataframe_for_N_recommendation [''7 8,9'', ''8 7'', ''7 9''] =
     Inr [\<lparr>user = 7, friends = [8, 9]\<rparr>, \<lparr>user = 8, friends = [7]\<rparr>,
          \<lparr>user = 7, friends = [9]\<rparr>]"
  using base_file_parsed_line_by_line
    [of "[''7 8,9'', ''8 7'', ''7 9'']"
        "[\<lparr>user = 7, friends = [8, 9]\<rparr>, \<lparr>user = 8, friends = [7]\<rparr>,
          \<lparr>user = 7, friends = [9]\<rparr>]"]
  by (simp add: parse_line_7_8_9 parse_line_8_7 parse_line_7_9)

end
